theory Spec2Isabelle
  imports Complex_Main
begin

section \<open>JavaScript values\<close>

text \<open>
  A JavaScript number is NaN, an infinity or a finite double. A finite double is a
  rational, so finite numbers are carried by \<^typ>\<open>rat\<close>: every statement
  quantified over \<open>Fin r\<close> covers every double. A computed value is rounded to the
  nearest double (\<open>to_double\<close> below), as IEEE 754 arithmetic does; the two zeros are
  not told apart.
\<close>

datatype jsnum = NaN | PosInf | NegInf | Fin rat

datatype jsval = JUndefined | JNull | JBool bool | JNum jsnum | JStr string | JObject

fun typeof :: "jsval \<Rightarrow> string" where
  "typeof JUndefined = ''undefined''"
| "typeof JNull = ''object''"
| "typeof (JBool b) = ''boolean''"
| "typeof (JNum n) = ''number''"
| "typeof (JStr s) = ''string''"
| "typeof JObject = ''object''"

text \<open>\<open>Number.isInteger\<close>: false on every value that is not a finite integral number.\<close>

fun Number_isInteger :: "jsval \<Rightarrow> bool" where
  "Number_isInteger (JNum (Fin r)) = (of_int \<lfloor>r\<rfloor> = r)"
| "Number_isInteger v = False"

text \<open>
  \<open>v < c\<close> and \<open>v > c\<close> for a finite constant \<open>c\<close>. The endpoints evaluate them
  only behind \<open>typeof v === "number"\<close>, so the coercions of other types are left out
  (the comparison is false there); a comparison with NaN is false.
\<close>

fun js_lt :: "jsval \<Rightarrow> rat \<Rightarrow> bool" where
  "js_lt (JNum (Fin r)) c = (r < c)"
| "js_lt (JNum NegInf) c = True"
| "js_lt v c = False"

fun js_gt :: "jsval \<Rightarrow> rat \<Rightarrow> bool" where
  "js_gt (JNum (Fin r)) c = (r > c)"
| "js_gt (JNum PosInf) c = True"
| "js_gt v c = False"

text \<open>The finite value of a number that passed validation.\<close>

fun num_value :: "jsval \<Rightarrow> rat" where
  "num_value (JNum (Fin r)) = r"
| "num_value v = 0"

text \<open>
  Rounding to the nearest double, ties to even (IEEE 754 binary64). The exponent of a
  magnitude \<open>a\<close> is the largest \<open>e\<close> from 1023 down to -1021 with \<open>2 powi e \<le> a\<close>, and
  -1022 below that (the subnormal range); the doubles of that binade are the multiples
  of \<open>2 powi (e - 52)\<close>. A result of \<open>2 ^ 1024\<close> or more is an infinity.
\<close>

fun find_exponent :: "nat \<Rightarrow> rat \<Rightarrow> int" where
  "find_exponent 0 a = - 1022"
| "find_exponent (Suc n) a =
     (if 2 powi (int (Suc n) - 1022) \<le> a then int (Suc n) - 1022 else find_exponent n a)"

definition round_half_even :: "rat \<Rightarrow> int" where
  "round_half_even x =
     (let f = \<lfloor>x\<rfloor>; d = x - of_int f
      in if d < 1 / 2 then f else if 1 / 2 < d then f + 1 else if even f then f else f + 1)"

definition to_double :: "rat \<Rightarrow> jsnum" where
  "to_double r =
     (let a = \<bar>r\<bar>;
          e = find_exponent 2045 a;
          v = of_int (round_half_even (a / 2 powi (e - 52))) * 2 powi (e - 52)
      in if 2 ^ 1024 \<le> v then (if r < 0 then NegInf else PosInf)
         else Fin (if r < 0 then - v else v))"

text \<open>
  \<open>x * c\<close> for a positive double \<open>c\<close>: the exact product, rounded. \<open>Math.round\<close> is
  exact on doubles (the nearest integer, a tie going up), \<open>Number.isFinite\<close>.
\<close>

fun js_times :: "jsnum \<Rightarrow> rat \<Rightarrow> jsnum" where
  "js_times (Fin r) c = to_double (r * c)"
| "js_times n c = n"

fun Math_round :: "jsnum \<Rightarrow> jsnum" where
  "Math_round (Fin r) = Fin (of_int \<lfloor>r + 1 / 2\<rfloor>)"
| "Math_round n = n"


text \<open>\<open>String.prototype.startsWith\<close> and \<open>toLowerCase\<close> (ASCII letters).\<close>

definition startsWith :: "'a list \<Rightarrow> 'a list \<Rightarrow> bool" where
  "startsWith s p = (take (length p) s = p)"

definition lower_char :: "char \<Rightarrow> char" where
  "lower_char c =
     (case map_of (zip ''ABCDEFGHIJKLMNOPQRSTUVWXYZ'' ''abcdefghijklmnopqrstuvwxyz'') c of
        Some l \<Rightarrow> l
      | None \<Rightarrow> c)"

definition toLowerCase :: "string \<Rightarrow> string" where
  "toLowerCase s = map lower_char s"

section \<open>The two server endpoints\<close>

text \<open>
  The request body as the handlers declare it:
  \<open>{ customerId?: string; amount?: number; currency?: string }\<close>. The handlers test
  the runtime type of \<open>amount\<close> and \<open>currency\<close>, so these two fields are arbitrary
  JSON values; \<open>customerId\<close> is used as a string without a test and keeps its
  declared type. \<open>request.json()\<close> either throws or yields the body.
\<close>

record body =
  customerId :: "string option"
  amount :: jsval
  currency :: jsval

datatype request = InvalidJson | JsonBody body

datatype payload = Error_payload string | Ok_payload | ClientSecret_payload string

record http_response =
  status :: nat
  payload :: payload

definition NextResponse_json :: "payload \<Rightarrow> nat \<Rightarrow> http_response" where
  "NextResponse_json p s = \<lparr>status = s, payload = p\<rparr>"

text \<open>
  The gateway client (\<open>@/lib/stripe\<close>) is outside the sources: it is a parameter.
  A call either rejects with the gateway's error detail or resolves;
  \<open>paymentIntents.create\<close> resolves to an intent whose \<open>client_secret\<close> may be null.
\<close>

type_synonym gw_error = string

record stripe_sdk =
  customers_createBalanceTransaction :: "string \<Rightarrow> rat \<Rightarrow> string \<Rightarrow> gw_error option"
  paymentIntents_create :: "rat \<Rightarrow> string \<Rightarrow> string \<Rightarrow> bool \<Rightarrow> gw_error + string option"

datatype gateway_call =
    CreateBalanceTransaction string rat string
  | PaymentIntentsCreate rat string string bool

text \<open>What a handler run leaves behind: the response, the gateway calls, the server log.\<close>

record outcome =
  response :: http_response
  calls :: "gateway_call list"
  logged :: "(string \<times> gw_error) list"

definition respond :: "http_response \<Rightarrow> outcome" where
  "respond r = \<lparr>response = r, calls = [], logged = []\<rparr>"

definition invalid_customerId :: "string option \<Rightarrow> bool" where
  "invalid_customerId c =
     (case c of None \<Rightarrow> True | Some s \<Rightarrow> s = [] \<or> \<not> startsWith s ''cus_'')"

definition invalid_amount :: "rat \<Rightarrow> rat \<Rightarrow> jsval \<Rightarrow> bool" where
  "invalid_amount lo hi a =
     (typeof a \<noteq> ''number'' \<or> \<not> Number_isInteger a \<or> js_lt a lo \<or> js_gt a hi)"

text \<open>The destructuring default \<open>currency = "usd"\<close> applies to \<open>undefined\<close> only.\<close>

definition default_currency :: "jsval \<Rightarrow> jsval" where
  "default_currency c = (case c of JUndefined \<Rightarrow> JStr ''usd'' | _ \<Rightarrow> c)"

subsection \<open>apply-credit\<close>

definition apply_MIN_CENTS :: rat where "apply_MIN_CENTS = 1"
definition apply_MAX_CENTS :: rat where "apply_MAX_CENTS = 99999999"

definition apply_credit_POST :: "stripe_sdk \<Rightarrow> request \<Rightarrow> outcome" where
  "apply_credit_POST stripe req =
     (case req of
        InvalidJson \<Rightarrow> respond (NextResponse_json (Error_payload ''Invalid JSON body'') 400)
      | JsonBody b \<Rightarrow>
          if invalid_customerId (customerId b) then
            respond (NextResponse_json (Error_payload ''Valid customerId (cus_...) is required'') 400)
          else if invalid_amount apply_MIN_CENTS apply_MAX_CENTS (amount b) then
            respond (NextResponse_json
              (Error_payload ''Amount must be an integer in cents between 1 and 99999999'') 400)
          else
            (case default_currency (currency b) of
               JStr cur \<Rightarrow>
                 if length cur \<noteq> 3 then
                   respond (NextResponse_json
                     (Error_payload ''Valid 3-letter currency code is required'') 400)
                 else
                   (let cid = the (customerId b);
                        call = CreateBalanceTransaction cid (- num_value (amount b)) (toLowerCase cur)
                    in case customers_createBalanceTransaction stripe cid
                              (- num_value (amount b)) (toLowerCase cur) of
                         None \<Rightarrow>
                           \<lparr>response = NextResponse_json Ok_payload 200,
                            calls = [call], logged = []\<rparr>
                       | Some err \<Rightarrow>
                           \<lparr>response = NextResponse_json (Error_payload ''Failed to apply credit'') 500,
                            calls = [call], logged = [(''Apply credit error:'', err)]\<rparr>)
             | _ \<Rightarrow>
                 respond (NextResponse_json
                   (Error_payload ''Valid 3-letter currency code is required'') 400)))"

subsection \<open>create-payment-intent\<close>

definition create_MIN_CENTS :: rat where "create_MIN_CENTS = 50"
definition create_MAX_CENTS :: rat where "create_MAX_CENTS = 99999999"

definition no_client_secret :: "string option \<Rightarrow> bool" where
  "no_client_secret cs = (case cs of None \<Rightarrow> True | Some s \<Rightarrow> s = [])"

definition create_payment_intent_POST :: "stripe_sdk \<Rightarrow> request \<Rightarrow> outcome" where
  "create_payment_intent_POST stripe req =
     (case req of
        InvalidJson \<Rightarrow> respond (NextResponse_json (Error_payload ''Invalid JSON body'') 400)
      | JsonBody b \<Rightarrow>
          if invalid_customerId (customerId b) then
            respond (NextResponse_json (Error_payload ''Valid customerId (cus_...) is required'') 400)
          else if invalid_amount create_MIN_CENTS create_MAX_CENTS (amount b) then
            respond (NextResponse_json
              (Error_payload ''Amount must be an integer in cents between 50 and 99999999'') 400)
          else
            (let cid = the (customerId b);
                 cur = (case default_currency (currency b) of
                          JStr c \<Rightarrow> toLowerCase c | _ \<Rightarrow> ''usd'');
                 call = PaymentIntentsCreate (num_value (amount b)) cur cid True
             in case paymentIntents_create stripe (num_value (amount b)) cur cid True of
                  Inr client_secret \<Rightarrow>
                    if no_client_secret client_secret then
                      \<lparr>response = NextResponse_json
                         (Error_payload ''Failed to create payment intent'') 500,
                       calls = [call], logged = []\<rparr>
                    else
                      \<lparr>response = NextResponse_json
                         (ClientSecret_payload (the client_secret)) 200,
                       calls = [call], logged = []\<rparr>
                | Inl err \<Rightarrow>
                    \<lparr>response = NextResponse_json
                       (Error_payload ''Failed to create payment intent'') 500,
                     calls = [call], logged = [(''Create payment intent error:'', err)]\<rparr>))"

text \<open>A gateway that accepts every call, and one that rejects every call.\<close>

definition gateway_up :: stripe_sdk where
  "gateway_up =
     \<lparr>customers_createBalanceTransaction = (\<lambda>cid a cur. None),
      paymentIntents_create = (\<lambda>a cur cid auto. Inr (Some (''pi_1_secret_'' @ cid)))\<rparr>"

definition gateway_down :: stripe_sdk where
  "gateway_down =
     \<lparr>customers_createBalanceTransaction = (\<lambda>cid a cur. Some ''card_declined: acct_1 rk_live''),
      paymentIntents_create = (\<lambda>a cur cid auto. Inl ''api_key_expired: rk_live'')\<rparr>"

text \<open>Gateways that create the intent and hand it over with a null or an empty secret.\<close>

definition gateway_null_secret :: stripe_sdk where
  "gateway_null_secret = gateway_up\<lparr>paymentIntents_create := (\<lambda>a cur cid auto. Inr None)\<rparr>"

definition gateway_empty_secret :: stripe_sdk where
  "gateway_empty_secret = gateway_up\<lparr>paymentIntents_create := (\<lambda>a cur cid auto. Inr (Some []))\<rparr>"

section \<open>The customer page\<close>

text \<open>
  An awaited call of the browser or of Stripe.js either rejects (with an \<open>Error\<close>
  carrying a message, or with some other thrown value) or resolves.
\<close>

datatype exn = Error string | Thrown

datatype 'a promise = Rejected exn | Resolved 'a

text \<open>\<open>e instanceof Error ? e.message : dflt\<close>\<close>

definition message_or :: "exn \<Rightarrow> string \<Rightarrow> string" where
  "message_or e dflt = (case e of Error m \<Rightarrow> m | Thrown \<Rightarrow> dflt)"

text \<open>\<open>x ?? dflt\<close>\<close>

definition nullish :: "'a option \<Rightarrow> 'a \<Rightarrow> 'a" where
  "nullish x dflt = (case x of Some v \<Rightarrow> v | None \<Rightarrow> dflt)"

text \<open>The truthiness test of \<open>if (secret)\<close> on a \<open>string | null\<close>.\<close>

definition truthy :: "string option \<Rightarrow> bool" where
  "truthy s = (case s of None \<Rightarrow> False | Some v \<Rightarrow> v \<noteq> [])"

record postal_address =
  line1 :: "string option"
  line2 :: "string option"
  city :: "string option"
  state :: "string option"
  postal_code :: "string option"
  country :: "string option"

record CustomerData =
  cd_id :: string
  email :: "string option"
  name :: "string option"
  address :: "postal_address option"
  balance :: int
  cd_currency :: string

text \<open>
  The payment intent as \<open>retrievePaymentIntent\<close> hands it over. The handler reads
  \<open>status\<close>, \<open>amount_received\<close>, \<open>amount\<close> and \<open>currency\<close>; \<open>pi_customer\<close> is the
  customer the intent was created for at the gateway. Amounts are integers of minor units.
\<close>

record PaymentIntent =
  pi_status :: string
  amount_received :: "int option"
  pi_amount :: "int option"
  pi_currency :: "string option"
  pi_customer :: "string option"

text \<open>
  The page's address: its path and the value of the query parameter
  \<open>payment_intent_client_secret\<close> as \<open>URLSearchParams.get\<close> returns it (\<open>None\<close> for
  null). The dynamic segment \<open>slug\<close> is a path segment, so the address written by
  \<open>replaceState\<close> has no query.
\<close>

record url =
  pathname :: string
  secret_param :: "string option"

record page =
  customer :: "CustomerData option"
  loading :: bool
  error :: "string option"
  location :: url

text \<open>
  The response of \<open>GET /api/customer\<close> as \<open>fetchCustomer\<close> reads it: not ok, with
  the \<open>error\<close> field of its body if the body parses and has one; or ok, with the
  outcome of \<open>res.json()\<close>.
\<close>

datatype customer_response = NotOk "string option" | IsOk "CustomerData promise"

text \<open>
  The response of \<open>POST /api/add-funds/apply-credit\<close>: \<open>res.ok\<close> and the \<open>error\<close>
  field of its body (\<open>None\<close> when the body does not parse or has none). The response of
  \<open>POST /api/add-funds/create-payment-intent\<close>: \<open>res.ok\<close> and the outcome of
  \<open>res.json()\<close> with its \<open>error\<close> and \<open>clientSecret\<close> fields.
\<close>

record apply_response =
  res_ok :: bool
  res_error :: "string option"

record create_json =
  cj_error :: "string option"
  cj_clientSecret :: "string option"

record create_response =
  cr_ok :: bool
  cr_json :: "create_json promise"

text \<open>
  Stripe.js answers \<open>elements.submit()\<close> and \<open>confirmPayment\<close> with
  \<open>{ error?: { message?: string } }\<close>. A confirmation that sends the browser to the
  return URL never settles: the handler is not resumed.
\<close>

datatype sdk_result = SdkError "string option" | SdkOk

datatype confirmation = Leaves_page | Settles "sdk_result promise"

text \<open>
  Everything outside the two components: Stripe.js, the network and the endpoints
  behind it. A request body carries an amount as a JavaScript number.
\<close>

record browser =
  loadStripe :: "bool promise"
  retrievePaymentIntent :: "string \<Rightarrow> PaymentIntent option promise"
  fetch_apply_credit :: "string \<Rightarrow> jsnum \<Rightarrow> string \<Rightarrow> apply_response promise"
  fetch_customer :: "string \<Rightarrow> customer_response promise"
  fetch_create_payment_intent :: "string \<Rightarrow> jsnum \<Rightarrow> string \<Rightarrow> create_response promise"
  elements_submit :: "sdk_result promise"
  confirmPayment :: "string \<Rightarrow> url \<Rightarrow> confirmation"

datatype event =
    ReplaceState url
  | LoadStripe
  | RetrievePaymentIntent string
  | FetchApplyCredit string jsnum string
  | FetchCustomer string
  | FetchCreatePaymentIntent string jsnum string
  | ElementsSubmit
  | ConfirmPayment string url
  | OnBalanceUpdated

definition resolved_amount :: "PaymentIntent \<Rightarrow> int" where
  "resolved_amount p = nullish (amount_received p) (nullish (pi_amount p) 0)"

text \<open>
  \<open>processPaymentRedirect\<close>: the exception it rejects with (\<open>None\<close> when it resolves)
  and the calls it made, in order. \<open>loadStripe\<close> resolving to \<open>False\<close> is null.
\<close>

definition processPaymentRedirect :: "browser \<Rightarrow> string \<Rightarrow> string \<Rightarrow> exn option \<times> event list" where
  "processPaymentRedirect env cid clientSecret =
     (case loadStripe env of
        Rejected e \<Rightarrow> (Some e, [LoadStripe])
      | Resolved stripe \<Rightarrow>
          if \<not> stripe then (None, [LoadStripe])
          else
            (case retrievePaymentIntent env clientSecret of
               Rejected e \<Rightarrow> (Some e, [LoadStripe, RetrievePaymentIntent clientSecret])
             | Resolved None \<Rightarrow> (None, [LoadStripe, RetrievePaymentIntent clientSecret])
             | Resolved (Some paymentIntent) \<Rightarrow>
                 if pi_status paymentIntent \<noteq> ''succeeded'' then
                   (None, [LoadStripe, RetrievePaymentIntent clientSecret])
                 else
                   (let amt = resolved_amount paymentIntent in
                    if amt < 1 then (None, [LoadStripe, RetrievePaymentIntent clientSecret])
                    else
                      (let cur = nullish (pi_currency paymentIntent) ''usd'';
                           evs = [LoadStripe, RetrievePaymentIntent clientSecret,
                                  FetchApplyCredit cid (Fin (of_int amt)) cur]
                       in case fetch_apply_credit env cid (Fin (of_int amt)) cur of
                            Rejected e \<Rightarrow> (Some e, evs)
                          | Resolved res \<Rightarrow>
                              if \<not> res_ok res then (Some (Error ''Failed to apply credit''), evs)
                              else (None, evs)))))"

definition fetchCustomer :: "browser \<Rightarrow> string \<Rightarrow> page \<Rightarrow> page \<times> event list" where
  "fetchCustomer env slug st =
     (if slug = [] then (st, [])
      else
        (let st1 = st\<lparr>loading := True, error := None\<rparr>;
             tried =
               (case fetch_customer env slug of
                  Rejected e \<Rightarrow> Inl e
                | Resolved (NotOk m) \<Rightarrow> Inl (Error (nullish m ''Failed to load customer''))
                | Resolved (IsOk (Rejected e)) \<Rightarrow> Inl e
                | Resolved (IsOk (Resolved d)) \<Rightarrow> Inr d)
         in (case tried of
               Inr d \<Rightarrow> st1\<lparr>customer := Some d, loading := False\<rparr>
             | Inl e \<Rightarrow>
                 st1\<lparr>error := Some (message_or e ''Failed to load customer''),
                     customer := None, loading := False\<rparr>,
             [FetchCustomer slug])))"

text \<open>
  The effect \<open>CustomerPortalPage\<close> runs when it mounts: the final page state and the
  calls made, in order.
\<close>

definition stripped :: "string \<Rightarrow> url" where
  "stripped slug = \<lparr>pathname = ''/customers/'' @ slug, secret_param = None\<rparr>"

definition CustomerPortalPage_effect :: "browser \<Rightarrow> string \<Rightarrow> page \<Rightarrow> page \<times> event list" where
  "CustomerPortalPage_effect env slug st =
     (if slug = [] then (st, [])
      else
        (let secret = secret_param (location st) in
         if truthy secret then
           (let st1 = st\<lparr>location := stripped slug, loading := True, error := None\<rparr>
            in case processPaymentRedirect env slug (the secret) of
                 (None, evs) \<Rightarrow>
                   (case fetchCustomer env slug st1 of
                      (st2, evs2) \<Rightarrow>
                        (st2\<lparr>loading := False\<rparr>, ReplaceState (stripped slug) # evs @ evs2))
               | (Some e, evs) \<Rightarrow>
                   (st1\<lparr>error := Some (message_or e ''Failed to update balance''),
                        customer := None, loading := False\<rparr>,
                    ReplaceState (stripped slug) # evs))
         else fetchCustomer env slug st))"

text \<open>What \<open>CustomerPortalPage\<close> renders from its state.\<close>

datatype view = MissingCustomerId | LoadingView | ErrorView string | PortalView CustomerData

definition render :: "string \<Rightarrow> page \<Rightarrow> view" where
  "render slug st =
     (if slug = [] then MissingCustomerId
      else if loading st then LoadingView
      else if error st \<noteq> None \<or> customer st = None then
        ErrorView (nullish (error st) ''Customer not found'')
      else PortalView (the (customer st)))"

definition apply_credit_calls :: "event list \<Rightarrow> nat" where
  "apply_credit_calls evs =
     length (filter (\<lambda>e. case e of FetchApplyCredit c a cur \<Rightarrow> True | _ \<Rightarrow> False) evs)"

text \<open>The page as first rendered at an address.\<close>

definition initial_page :: "url \<Rightarrow> page" where
  "initial_page u = \<lparr>customer = None, loading = True, error = None, location = u\<rparr>"

section \<open>The payment form\<close>

text \<open>
  A JavaScript string is a sequence of UTF-16 code units; the text of the amount field
  is carried as such (\<open>code_units\<close> writes an ASCII literal).

  \<open>parseFloat\<close>: leading white space (the \<open>WhiteSpace\<close> and \<open>LineTerminator\<close> code
  points of the language), a sign, then \<open>Infinity\<close> or the longest decimal literal
  (digits, a fraction, an exponent); what follows is ignored, and the result is NaN when
  there is no digit. The value is the double nearest to the decimal value.
\<close>

definition code_units :: "string \<Rightarrow> nat list" where
  "code_units s = map of_char s"

definition is_space :: "nat \<Rightarrow> bool" where
  "is_space n =
     ((9 \<le> n \<and> n \<le> 13) \<or> n = 32 \<or> n = 160 \<or> n = 5760 \<or> (8192 \<le> n \<and> n \<le> 8202)
      \<or> n = 8232 \<or> n = 8233 \<or> n = 8239 \<or> n = 8287 \<or> n = 12288 \<or> n = 65279)"

definition is_digit :: "nat \<Rightarrow> bool" where
  "is_digit n = (48 \<le> n \<and> n \<le> 57)"

definition digits_value :: "nat list \<Rightarrow> nat" where
  "digits_value ds = foldl (\<lambda>acc c. 10 * acc + (c - 48)) 0 ds"

text \<open>Code units: 43 is \<open>+\<close>, 45 is \<open>-\<close>, 46 is the point, 69 and 101 are \<open>E\<close> and \<open>e\<close>.\<close>

definition exponent :: "nat list \<Rightarrow> int" where
  "exponent s =
     (if s \<noteq> [] \<and> (hd s = 101 \<or> hd s = 69) then
        (let t = tl s;
             neg = (t \<noteq> [] \<and> hd t = 45);
             u = (if t \<noteq> [] \<and> (hd t = 45 \<or> hd t = 43) then tl t else t);
             ds = takeWhile is_digit u
         in if ds = [] then 0
            else if neg then - int (digits_value ds) else int (digits_value ds))
      else 0)"

definition parseFloat :: "nat list \<Rightarrow> jsnum" where
  "parseFloat s =
     (let t = dropWhile is_space s;
          neg = (t \<noteq> [] \<and> hd t = 45);
          u = (if t \<noteq> [] \<and> (hd t = 45 \<or> hd t = 43) then tl t else t)
      in if startsWith u (code_units ''Infinity'') then (if neg then NegInf else PosInf)
         else
           (let ip = takeWhile is_digit u;
                r1 = dropWhile is_digit u;
                dot = (r1 \<noteq> [] \<and> hd r1 = 46);
                fp = (if dot then takeWhile is_digit (tl r1) else []);
                r2 = (if dot then dropWhile is_digit (tl r1) else r1)
            in if ip = [] \<and> fp = [] then NaN
               else
                 (let v = of_nat (digits_value (ip @ fp)) / 10 ^ length fp * 10 powi exponent r2
                  in to_double (if neg then - v else v))))"

text \<open>\<open>Math.round(parseFloat(amountDollars) * 100)\<close>\<close>

definition to_cents :: "nat list \<Rightarrow> jsnum" where
  "to_cents amountDollars = Math_round (js_times (parseFloat amountDollars) 100)"

text \<open>
  The state of \<open>CustomerPortal\<close>; the two refs hold whether Stripe.js and the mounted
  payment element are there. Its props are the customer and the customer reference;
  \<open>onBalanceUpdated\<close> is recorded as a call.
\<close>

record portal =
  amountDollars :: "nat list"
  clientSecret :: "string option"
  payLoading :: bool
  payError :: "string option"
  stripeRef :: bool
  elementsRef :: bool

record props =
  prop_customer :: CustomerData
  prop_customerId :: string


text \<open>
  \<open>handleConfirmPayment\<close>. The return URL is the customer's page with the client secret
  as its query parameter (same origin; the billing details passed along are left out).
\<close>

definition handleConfirmPayment :: "browser \<Rightarrow> props \<Rightarrow> portal \<Rightarrow> portal \<times> event list" where
  "handleConfirmPayment env pr st =
     (if \<not> stripeRef st \<or> \<not> elementsRef st \<or> \<not> truthy (clientSecret st) then (st, [])
      else
        (let amountCents = to_cents (amountDollars st);
             st1 = st\<lparr>payError := None, payLoading := True\<rparr>;
             secret = the (clientSecret st);
             cid = prop_customerId pr;
             cur = cd_currency (prop_customer pr);
             return_url = \<lparr>pathname = ''/customers/'' @ cid, secret_param = Some secret\<rparr>;
             caught = (\<lambda>e. st1\<lparr>payError := Some (message_or e ''Something went wrong''),
                                payLoading := False\<rparr>)
         in case elements_submit env of
              Rejected e \<Rightarrow> (caught e, [ElementsSubmit])
            | Resolved (SdkError m) \<Rightarrow>
                (st1\<lparr>payError := Some (nullish m ''Validation failed''), payLoading := False\<rparr>,
                 [ElementsSubmit])
            | Resolved SdkOk \<Rightarrow>
                (case confirmPayment env secret return_url of
                   Leaves_page \<Rightarrow> (st1, [ElementsSubmit, ConfirmPayment secret return_url])
                 | Settles (Rejected e) \<Rightarrow>
                     (caught e, [ElementsSubmit, ConfirmPayment secret return_url])
                 | Settles (Resolved (SdkError m)) \<Rightarrow>
                     (st1\<lparr>payError := Some (nullish m ''Payment failed''), payLoading := False\<rparr>,
                      [ElementsSubmit, ConfirmPayment secret return_url])
                 | Settles (Resolved SdkOk) \<Rightarrow>
                     (let evs = [ElementsSubmit, ConfirmPayment secret return_url,
                                 FetchApplyCredit cid amountCents cur]
                      in case fetch_apply_credit env cid amountCents cur of
                           Rejected e \<Rightarrow> (caught e, evs)
                         | Resolved applyRes \<Rightarrow>
                             if \<not> res_ok applyRes then
                               (st1\<lparr>payError := Some (nullish (res_error applyRes)
                                      ''Payment succeeded but failed to add credit. Contact support.''),
                                    payLoading := False\<rparr>, evs)
                             else
                               (st1\<lparr>clientSecret := None, amountDollars := [],
                                    payLoading := False\<rparr>,
                                evs @ [OnBalanceUpdated])))))"

section \<open>Concrete runs\<close>

text \<open>
  A browser in which every call goes through: the secret \<open>pi_A_secret_1\<close> belongs to
  a succeeded intent of 200 minor units created for customer \<open>cus_A\<close>, the secret
  \<open>pi_C_secret_2\<close> to a canceled intent of 500.
\<close>

definition intent_A :: PaymentIntent where
  "intent_A =
     \<lparr>pi_status = ''succeeded'', amount_received = Some 200, pi_amount = Some 200,
      pi_currency = Some ''usd'', pi_customer = Some ''cus_A''\<rparr>"

definition intent_C :: PaymentIntent where
  "intent_C =
     \<lparr>pi_status = ''canceled'', amount_received = Some 0, pi_amount = Some 500,
      pi_currency = Some ''usd'', pi_customer = Some ''cus_A''\<rparr>"

definition profile :: "string \<Rightarrow> CustomerData" where
  "profile c =
     \<lparr>cd_id = c, email = None, name = None, address = None, balance = - 200,
      cd_currency = ''usd''\<rparr>"

definition browser_ok :: browser where
  "browser_ok =
     \<lparr>loadStripe = Resolved True,
      retrievePaymentIntent =
        (\<lambda>s. Resolved (if s = ''pi_A_secret_1'' then Some intent_A
                       else if s = ''pi_C_secret_2'' then Some intent_C else None)),
      fetch_apply_credit = (\<lambda>c a cur. Resolved \<lparr>res_ok = True, res_error = None\<rparr>),
      fetch_customer = (\<lambda>c. Resolved (IsOk (Resolved (profile c)))),
      fetch_create_payment_intent =
        (\<lambda>c a cur. Resolved \<lparr>cr_ok = True,
           cr_json = Resolved \<lparr>cj_error = None, cj_clientSecret = Some ''pi_A_secret_1''\<rparr>\<rparr>),
      elements_submit = Resolved SdkOk,
      confirmPayment = (\<lambda>s u. Settles (Resolved SdkOk))\<rparr>"

text \<open>The page of customer \<open>slug\<close> as loaded with the query parameter \<open>q\<close>.\<close>

definition loaded_at :: "string \<Rightarrow> string option \<Rightarrow> page" where
  "loaded_at slug q = initial_page \<lparr>pathname = ''/customers/'' @ slug, secret_param = q\<rparr>"

text \<open>The form of customer \<open>c\<close> with an amount typed in and an intent created.\<close>

definition form_with :: "nat list \<Rightarrow> string option \<Rightarrow> portal" where
  "form_with amt secret =
     \<lparr>amountDollars = amt, clientSecret = secret, payLoading = False, payError = None,
      stripeRef = True, elementsRef = True\<rparr>"

definition props_of :: "string \<Rightarrow> props" where
  "props_of c = \<lparr>prop_customer = profile c, prop_customerId = c\<rparr>"

text \<open>The same browser, except that the apply-credit endpoint answers with an error.\<close>

definition browser_credit_fails :: browser where
  "browser_credit_fails =
     browser_ok\<lparr>fetch_apply_credit :=
       (\<lambda>c a cur. Resolved \<lparr>res_ok = False, res_error = Some ''Failed to apply credit''\<rparr>)\<rparr>"

text \<open>A browser whose retrieved intents are all relabelled as created for customer \<open>c\<close>.\<close>

definition with_intent_customer :: "string option \<Rightarrow> browser \<Rightarrow> browser" where
  "with_intent_customer c env =
     env\<lparr>retrievePaymentIntent :=
       (\<lambda>s. case retrievePaymentIntent env s of
               Resolved (Some p) \<Rightarrow> Resolved (Some (p\<lparr>pi_customer := c\<rparr>))
             | r \<Rightarrow> r)\<rparr>"

text \<open>
  More succeeded intents: one of 500 of which 180 were received, in euros; one of 300
  with no \<open>amount_received\<close> and no currency; one of 500 of which nothing was received.
\<close>

definition intent_P :: PaymentIntent where
  "intent_P =
     \<lparr>pi_status = ''succeeded'', amount_received = Some 180, pi_amount = Some 500,
      pi_currency = Some ''eur'', pi_customer = Some ''cus_A''\<rparr>"

definition intent_F :: PaymentIntent where
  "intent_F =
     \<lparr>pi_status = ''succeeded'', amount_received = None, pi_amount = Some 300,
      pi_currency = None, pi_customer = Some ''cus_A''\<rparr>"

definition intent_Z :: PaymentIntent where
  "intent_Z =
     \<lparr>pi_status = ''succeeded'', amount_received = Some 0, pi_amount = Some 500,
      pi_currency = Some ''usd'', pi_customer = Some ''cus_A''\<rparr>"

definition browser_more :: browser where
  "browser_more =
     browser_ok\<lparr>retrievePaymentIntent :=
       (\<lambda>s. Resolved (if s = ''pi_P_secret_3'' then Some intent_P
                       else if s = ''pi_F_secret_4'' then Some intent_F
                       else if s = ''pi_Z_secret_5'' then Some intent_Z else None))\<rparr>"

text \<open>The first browser, except that \<open>loadStripe\<close> resolves to null.\<close>

definition browser_no_stripe :: browser where
  "browser_no_stripe = browser_ok\<lparr>loadStripe := Resolved False\<rparr>"

text \<open>
  The first browser, except that the confirmation sends the browser to the return URL.
\<close>

definition browser_redirects :: browser where
  "browser_redirects = browser_ok\<lparr>confirmPayment := (\<lambda>s u. Leaves_page)\<rparr>"

text \<open>
  The calls of \<open>n\<close> loads of one address, one after the other; each load starts from
  the page as first rendered.
\<close>

definition reloads :: "nat \<Rightarrow> browser \<Rightarrow> string \<Rightarrow> url \<Rightarrow> event list" where
  "reloads n env slug u =
     concat (replicate n (snd (CustomerPortalPage_effect env slug (initial_page u))))"

section \<open>Properties of the endpoints\<close>

lemma isInteger_Ints: "(of_int \<lfloor>r\<rfloor> = r) = (r \<in> \<int>)" for r :: rat
  by (metis Ints_of_int Ints_cases floor_of_int)

lemma invalid_amount_finite:
  "invalid_amount lo hi (JNum (Fin r)) = (r \<notin> \<int> \<or> r < lo \<or> r > hi)"
  using isInteger_Ints [of r] by (simp add: invalid_amount_def del: of_int_floor_cancel)

lemma invalid_amount_other:
  "(\<And>r. a \<noteq> JNum (Fin r)) \<Longrightarrow> invalid_amount lo hi a"
  by (cases a rule: Number_isInteger.cases) (simp_all add: invalid_amount_def)

lemma create_rejects:
  "invalid_amount 50 99999999 (amount b) \<Longrightarrow>
     create_payment_intent_POST stripe (JsonBody b) =
       respond \<lparr>status = 400, payload = Error_payload
         (if invalid_customerId (customerId b) then ''Valid customerId (cus_...) is required''
          else ''Amount must be an integer in cents between 50 and 99999999'')\<rparr>"
  by (simp add: create_payment_intent_POST_def NextResponse_json_def
      create_MIN_CENTS_def create_MAX_CENTS_def)

lemma apply_rejects:
  "invalid_amount 1 99999999 (amount b) \<Longrightarrow>
     apply_credit_POST stripe (JsonBody b) =
       respond \<lparr>status = 400, payload = Error_payload
         (if invalid_customerId (customerId b) then ''Valid customerId (cus_...) is required''
          else ''Amount must be an integer in cents between 1 and 99999999'')\<rparr>"
  by (simp add: apply_credit_POST_def NextResponse_json_def
      apply_MIN_CENTS_def apply_MAX_CENTS_def)

lemma startsWith_cus_nonempty: "startsWith s ''cus_'' \<Longrightarrow> s \<noteq> []"
  by (auto simp: startsWith_def)

lemma valid_customerId: "startsWith cid ''cus_'' \<Longrightarrow> \<not> invalid_customerId (Some cid)"
  by (auto simp: invalid_customerId_def dest: startsWith_cus_nonempty)

lemma valid_amount_int:
  "lo \<le> of_int a \<Longrightarrow> of_int a \<le> hi \<Longrightarrow> \<not> invalid_amount lo hi (JNum (Fin (of_int a)))"
  by (simp add: invalid_amount_finite)

text \<open>
  C2 (as amended). An amount that is not a finite number, not an integer, or above
  99999999 is rejected by both endpoints with status 400 and a validation message,
  before any gateway call; so is an amount below 50 by create-payment-intent, and an
  amount below 1 by apply-credit.
\<close>

theorem C2_amount_validation:
  "((case amount b of JNum (Fin r) \<Rightarrow> r < 50 \<or> r > 99999999 \<or> r \<notin> \<int> | _ \<Rightarrow> True) \<longrightarrow>
       create_payment_intent_POST stripe (JsonBody b) =
         \<lparr>response = \<lparr>status = 400, payload = Error_payload
            (if invalid_customerId (customerId b) then ''Valid customerId (cus_...) is required''
             else ''Amount must be an integer in cents between 50 and 99999999'')\<rparr>,
          calls = [], logged = []\<rparr>)
   \<and> ((case amount b of JNum (Fin r) \<Rightarrow> r < 1 \<or> r > 99999999 \<or> r \<notin> \<int> | _ \<Rightarrow> True) \<longrightarrow>
       apply_credit_POST stripe (JsonBody b) =
         \<lparr>response = \<lparr>status = 400, payload = Error_payload
            (if invalid_customerId (customerId b) then ''Valid customerId (cus_...) is required''
             else ''Amount must be an integer in cents between 1 and 99999999'')\<rparr>,
          calls = [], logged = []\<rparr>)"
proof (intro conjI impI)
  assume h: "case amount b of JNum (Fin r) \<Rightarrow> r < 50 \<or> r > 99999999 \<or> r \<notin> \<int> | _ \<Rightarrow> True"
  have "invalid_amount 50 99999999 (amount b)"
  proof (cases "\<exists>r. amount b = JNum (Fin r)")
    case True
    then obtain r where "amount b = JNum (Fin r)" by blast
    with h show ?thesis by (auto simp: invalid_amount_finite)
  next
    case False
    then show ?thesis by (intro invalid_amount_other) blast
  qed
  then show "create_payment_intent_POST stripe (JsonBody b) =
         \<lparr>response = \<lparr>status = 400, payload = Error_payload
            (if invalid_customerId (customerId b) then ''Valid customerId (cus_...) is required''
             else ''Amount must be an integer in cents between 50 and 99999999'')\<rparr>,
          calls = [], logged = []\<rparr>"
    using create_rejects [of b stripe] by (simp add: respond_def)
next
  assume h: "case amount b of JNum (Fin r) \<Rightarrow> r < 1 \<or> r > 99999999 \<or> r \<notin> \<int> | _ \<Rightarrow> True"
  have "invalid_amount 1 99999999 (amount b)"
  proof (cases "\<exists>r. amount b = JNum (Fin r)")
    case True
    then obtain r where "amount b = JNum (Fin r)" by blast
    with h show ?thesis by (auto simp: invalid_amount_finite)
  next
    case False
    then show ?thesis by (intro invalid_amount_other) blast
  qed
  then show "apply_credit_POST stripe (JsonBody b) =
         \<lparr>response = \<lparr>status = 400, payload = Error_payload
            (if invalid_customerId (customerId b) then ''Valid customerId (cus_...) is required''
             else ''Amount must be an integer in cents between 1 and 99999999'')\<rparr>,
          calls = [], logged = []\<rparr>"
    using apply_rejects [of b stripe] by (simp add: respond_def)
qed

theorem C2_amount_validation_witness:
  "status (response (create_payment_intent_POST gateway_up
      (JsonBody \<lparr>customerId = Some ''cus_1'', amount = JNum (Fin (1 / 2)), currency = JStr ''usd''\<rparr>))) = 400
   \<and> status (response (apply_credit_POST gateway_up
      (JsonBody \<lparr>customerId = Some ''cus_1'', amount = JNum (Fin (1 / 2)), currency = JStr ''usd''\<rparr>))) = 400"
  using C2_amount_validation
    [of "\<lparr>customerId = Some ''cus_1'', amount = JNum (Fin (1 / 2)), currency = JStr ''usd''\<rparr>" gateway_up]
  by (simp add: Ints_def)

text \<open>
  The claim as stated fails at 30 minor units: apply-credit accepts the request and posts
  the credit.
\<close>

theorem C2_counterexample:
  "apply_credit_POST gateway_up
     (JsonBody \<lparr>customerId = Some ''cus_1'', amount = JNum (Fin 30), currency = JStr ''usd''\<rparr>)
   = \<lparr>response = \<lparr>status = 200, payload = Ok_payload\<rparr>,
      calls = [CreateBalanceTransaction ''cus_1'' (- 30) ''usd''], logged = []\<rparr>"
  by (simp add: apply_credit_POST_def invalid_customerId_def startsWith_def invalid_amount_def
      NextResponse_json_def apply_MIN_CENTS_def apply_MAX_CENTS_def default_currency_def
      gateway_up_def toLowerCase_def lower_char_def)

text \<open>
  C5. A request with a customer reference \<open>cus_...\<close>, an integer amount \<open>a\<close> in
  [1, 99999999] and a currency code of three characters makes exactly one gateway call:
  a balance transaction of \<open>- a\<close> for that customer, in that currency (written in lower
  case). When the gateway accepts it, the answer is the bare acknowledgment with
  status 200.
\<close>

theorem C5_apply_credit_posts_negated_amount:
  assumes "customerId b = Some cid" and "startsWith cid ''cus_''"
    and "amount b = JNum (Fin (of_int a))" and "1 \<le> a" and "a \<le> 99999999"
    and "currency b = JStr cur" and "length cur = 3"
  shows "calls (apply_credit_POST stripe (JsonBody b))
           = [CreateBalanceTransaction cid (of_int (- a)) (toLowerCase cur)]
       \<and> (customers_createBalanceTransaction stripe cid (of_int (- a)) (toLowerCase cur) = None \<longrightarrow>
            response (apply_credit_POST stripe (JsonBody b)) = \<lparr>status = 200, payload = Ok_payload\<rparr>
          \<and> logged (apply_credit_POST stripe (JsonBody b)) = [])"
proof -
  have c: "\<not> invalid_customerId (customerId b)"
    using assms(1,2) by (simp add: valid_customerId)
  have "(1::rat) \<le> of_int a" and "(of_int a :: rat) \<le> 99999999"
    using assms(4,5) by simp_all
  then have v: "\<not> invalid_amount apply_MIN_CENTS apply_MAX_CENTS (amount b)"
    using assms(3) by (simp add: valid_amount_int apply_MIN_CENTS_def apply_MAX_CENTS_def)
  have n: "num_value (amount b) = of_int a"
    using assms(3) by simp
  show ?thesis
  proof (cases "customers_createBalanceTransaction stripe cid (of_int (- a)) (toLowerCase cur)")
    case None
    then show ?thesis
      using c v n assms(1,6,7)
      by (simp add: apply_credit_POST_def default_currency_def NextResponse_json_def)
  next
    case (Some err)
    then show ?thesis
      using c v n assms(1,6,7)
      by (simp add: apply_credit_POST_def default_currency_def NextResponse_json_def)
  qed
qed

theorem C5_apply_credit_posts_negated_amount_witness:
  "calls (apply_credit_POST gateway_up
      (JsonBody \<lparr>customerId = Some ''cus_9'', amount = JNum (Fin 200), currency = JStr ''USD''\<rparr>))
     = [CreateBalanceTransaction ''cus_9'' (- 200) ''usd'']
   \<and> response (apply_credit_POST gateway_up
      (JsonBody \<lparr>customerId = Some ''cus_9'', amount = JNum (Fin 200), currency = JStr ''USD''\<rparr>))
     = \<lparr>status = 200, payload = Ok_payload\<rparr>"
  using C5_apply_credit_posts_negated_amount
    [of "\<lparr>customerId = Some ''cus_9'', amount = JNum (Fin 200), currency = JStr ''USD''\<rparr>"
        "''cus_9''" 200 "''USD''" gateway_up]
  by (simp add: startsWith_def gateway_up_def toLowerCase_def lower_char_def)

text \<open>
  C8. Whenever create-payment-intent has called the gateway, and the call failed or the
  created intent came with a null or an empty client secret, the answer is status 500
  with the fixed message \<open>Failed to create payment intent\<close>: the gateway's error detail
  is not part of it, and no validation answer (status 400) has this status.
\<close>

theorem C8_gateway_failure_is_generic_500:
  assumes "calls (create_payment_intent_POST stripe (JsonBody b)) = [PaymentIntentsCreate a cur cid auto]"
    and "paymentIntents_create stripe a cur cid auto = Inl err
         \<or> paymentIntents_create stripe a cur cid auto = Inr None
         \<or> paymentIntents_create stripe a cur cid auto = Inr (Some [])"
  shows "response (create_payment_intent_POST stripe (JsonBody b))
           = \<lparr>status = 500, payload = Error_payload ''Failed to create payment intent''\<rparr>"
  using assms
  by (auto simp: create_payment_intent_POST_def respond_def NextResponse_json_def Let_def
      no_client_secret_def split: if_splits sum.splits)

lemma create_call:
  "calls (create_payment_intent_POST stripe
      (JsonBody \<lparr>customerId = Some ''cus_9'', amount = JNum (Fin 500), currency = JUndefined\<rparr>))
     = [PaymentIntentsCreate 500 ''usd'' ''cus_9'' True]"
  by (cases "paymentIntents_create stripe 500 ''usd'' ''cus_9'' True")
     (simp_all add: create_payment_intent_POST_def invalid_customerId_def startsWith_def
        invalid_amount_def create_MIN_CENTS_def create_MAX_CENTS_def default_currency_def
        toLowerCase_def lower_char_def Let_def)

theorem C8_gateway_failure_is_generic_500_witness:
  "paymentIntents_create gateway_down 500 ''usd'' ''cus_9'' True = Inl ''api_key_expired: rk_live''
   \<and> response (create_payment_intent_POST gateway_down
        (JsonBody \<lparr>customerId = Some ''cus_9'', amount = JNum (Fin 500), currency = JUndefined\<rparr>))
       = \<lparr>status = 500, payload = Error_payload ''Failed to create payment intent''\<rparr>
   \<and> paymentIntents_create gateway_null_secret 500 ''usd'' ''cus_9'' True = Inr None
   \<and> response (create_payment_intent_POST gateway_null_secret
        (JsonBody \<lparr>customerId = Some ''cus_9'', amount = JNum (Fin 500), currency = JUndefined\<rparr>))
       = \<lparr>status = 500, payload = Error_payload ''Failed to create payment intent''\<rparr>
   \<and> paymentIntents_create gateway_empty_secret 500 ''usd'' ''cus_9'' True = Inr (Some [])
   \<and> response (create_payment_intent_POST gateway_empty_secret
        (JsonBody \<lparr>customerId = Some ''cus_9'', amount = JNum (Fin 500), currency = JUndefined\<rparr>))
       = \<lparr>status = 500, payload = Error_payload ''Failed to create payment intent''\<rparr>"
proof -
  have g1: "paymentIntents_create gateway_down 500 ''usd'' ''cus_9'' True = Inl ''api_key_expired: rk_live''"
    by (simp add: gateway_down_def)
  have g2: "paymentIntents_create gateway_null_secret 500 ''usd'' ''cus_9'' True = Inr None"
    by (simp add: gateway_null_secret_def)
  have g3: "paymentIntents_create gateway_empty_secret 500 ''usd'' ''cus_9'' True = Inr (Some [])"
    by (simp add: gateway_empty_secret_def)
  note t = C8_gateway_failure_is_generic_500 [OF create_call]
  from t [of gateway_down "''api_key_expired: rk_live''"] g1
  have r1: "response (create_payment_intent_POST gateway_down
        (JsonBody \<lparr>customerId = Some ''cus_9'', amount = JNum (Fin 500), currency = JUndefined\<rparr>))
       = \<lparr>status = 500, payload = Error_payload ''Failed to create payment intent''\<rparr>"
    by simp
  from t [of gateway_null_secret "[]"] g2
  have r2: "response (create_payment_intent_POST gateway_null_secret
        (JsonBody \<lparr>customerId = Some ''cus_9'', amount = JNum (Fin 500), currency = JUndefined\<rparr>))
       = \<lparr>status = 500, payload = Error_payload ''Failed to create payment intent''\<rparr>"
    by simp
  from t [of gateway_empty_secret "[]"] g3
  have r3: "response (create_payment_intent_POST gateway_empty_secret
        (JsonBody \<lparr>customerId = Some ''cus_9'', amount = JNum (Fin 500), currency = JUndefined\<rparr>))
       = \<lparr>status = 500, payload = Error_payload ''Failed to create payment intent''\<rparr>"
    by simp
  from g1 g2 g3 r1 r2 r3 show ?thesis by simp
qed

section \<open>Properties of the customer page\<close>

lemma fetchCustomer_events:
  "snd (fetchCustomer env slug st) = (if slug = [] then [] else [FetchCustomer slug])"
  by (simp add: fetchCustomer_def Let_def)

lemma fetchCustomer_location:
  "location (fst (fetchCustomer env slug st)) = location st"
  by (simp add: fetchCustomer_def Let_def split: promise.splits customer_response.splits sum.splits)

lemma fetchCustomer_ok:
  "slug \<noteq> [] \<Longrightarrow> fetch_customer env slug = Resolved (IsOk (Resolved d)) \<Longrightarrow>
     fst (fetchCustomer env slug st) = st\<lparr>loading := False, error := None, customer := Some d\<rparr>"
  by (simp add: fetchCustomer_def Let_def)

lemma redirect_events_shape:
  "snd (processPaymentRedirect env cid s) = [LoadStripe]
   \<or> snd (processPaymentRedirect env cid s) = [LoadStripe, RetrievePaymentIntent s]
   \<or> (\<exists>a cur. snd (processPaymentRedirect env cid s)
         = [LoadStripe, RetrievePaymentIntent s, FetchApplyCredit cid a cur])"
  by (simp add: processPaymentRedirect_def Let_def split: promise.splits option.splits)

lemma redirect_at_most_once:
  "apply_credit_calls (snd (processPaymentRedirect env cid s)) \<le> 1"
  using redirect_events_shape [of env cid s] by (auto simp: apply_credit_calls_def)

lemma redirect_credits_cid:
  "FetchApplyCredit c a cur \<in> set (snd (processPaymentRedirect env cid s)) \<Longrightarrow> c = cid"
  using redirect_events_shape [of env cid s] by auto

lemma redirect_no_replaceState:
  "ReplaceState u \<notin> set (snd (processPaymentRedirect env cid s))"
  using redirect_events_shape [of env cid s] by auto

lemma redirect_no_fetchCustomer:
  "FetchCustomer c \<notin> set (snd (processPaymentRedirect env cid s))"
  using redirect_events_shape [of env cid s] by auto

lemma redirect_abort:
  assumes "loadStripe env = Resolved True"
    and "retrievePaymentIntent env s = Resolved (Some p)"
    and "pi_status p \<noteq> ''succeeded'' \<or> resolved_amount p < 1"
  shows "processPaymentRedirect env cid s = (None, [LoadStripe, RetrievePaymentIntent s])"
  using assms by (auto simp: processPaymentRedirect_def Let_def)

lemma redirect_credit:
  assumes "loadStripe env = Resolved True"
    and "retrievePaymentIntent env s = Resolved (Some p)"
    and "pi_status p = ''succeeded''" and "1 \<le> resolved_amount p"
  shows "processPaymentRedirect env cid s =
           ((case fetch_apply_credit env cid (Fin (of_int (resolved_amount p)))
                    (nullish (pi_currency p) ''usd'') of
               Rejected e \<Rightarrow> Some e
             | Resolved res \<Rightarrow> if res_ok res then None else Some (Error ''Failed to apply credit'')),
            [LoadStripe, RetrievePaymentIntent s,
             FetchApplyCredit cid (Fin (of_int (resolved_amount p))) (nullish (pi_currency p) ''usd'')])"
  using assms by (simp add: processPaymentRedirect_def Let_def split: promise.splits)

lemma effect_without_secret:
  "\<not> truthy (secret_param (location st)) \<Longrightarrow>
     CustomerPortalPage_effect env slug st = fetchCustomer env slug st"
  by (simp add: CustomerPortalPage_effect_def fetchCustomer_def Let_def)

lemma effect_resolved:
  assumes "slug \<noteq> []" and "secret_param (location st) = Some s" and "s \<noteq> []"
    and "fst (processPaymentRedirect env slug s) = None"
  shows "CustomerPortalPage_effect env slug st =
           ((fst (fetchCustomer env slug (st\<lparr>location := stripped slug, loading := True, error := None\<rparr>)))
               \<lparr>loading := False\<rparr>,
            ReplaceState (stripped slug) # snd (processPaymentRedirect env slug s) @ [FetchCustomer slug])"
proof -
  obtain evs where p: "processPaymentRedirect env slug s = (None, evs)"
    using assms(4) by (cases "processPaymentRedirect env slug s") auto
  obtain st2 evs2 where f:
    "fetchCustomer env slug (st\<lparr>location := stripped slug, loading := True, error := None\<rparr>) = (st2, evs2)"
    by (cases "fetchCustomer env slug (st\<lparr>location := stripped slug, loading := True, error := None\<rparr>)")
  have "evs2 = [FetchCustomer slug]"
    using fetchCustomer_events [of env slug "st\<lparr>location := stripped slug, loading := True, error := None\<rparr>"]
      f assms(1) by simp
  then show ?thesis
    using assms(1-3) p f by (simp add: CustomerPortalPage_effect_def truthy_def Let_def)
qed

lemma effect_rejected:
  assumes "slug \<noteq> []" and "secret_param (location st) = Some s" and "s \<noteq> []"
    and "fst (processPaymentRedirect env slug s) = Some e"
  shows "CustomerPortalPage_effect env slug st =
           (st\<lparr>location := stripped slug, loading := False,
               error := Some (message_or e ''Failed to update balance''), customer := None\<rparr>,
            ReplaceState (stripped slug) # snd (processPaymentRedirect env slug s))"
proof -
  obtain evs where p: "processPaymentRedirect env slug s = (Some e, evs)"
    using assms(4) by (cases "processPaymentRedirect env slug s") auto
  show ?thesis
    using assms(1-3) p by (simp add: CustomerPortalPage_effect_def truthy_def Let_def)
qed

lemma truthy_Some: "truthy q \<Longrightarrow> \<exists>s. q = Some s \<and> s \<noteq> []"
  by (cases q) (simp_all add: truthy_def)

lemma effect_events:
  assumes "slug \<noteq> []"
  shows "snd (CustomerPortalPage_effect env slug st) =
           (if truthy (secret_param (location st)) then
              ReplaceState (stripped slug) #
                snd (processPaymentRedirect env slug (the (secret_param (location st)))) @
                (if fst (processPaymentRedirect env slug (the (secret_param (location st)))) = None
                 then [FetchCustomer slug] else [])
            else [FetchCustomer slug])"
proof (cases "truthy (secret_param (location st))")
  case False
  then show ?thesis
    using assms by (simp add: effect_without_secret fetchCustomer_events)
next
  case True
  then obtain s where s: "secret_param (location st) = Some s" "s \<noteq> []"
    using truthy_Some by blast
  show ?thesis
  proof (cases "fst (processPaymentRedirect env slug s)")
    case None
    then show ?thesis using True s assms effect_resolved [of slug st s env] by simp
  next
    case (Some e)
    then show ?thesis using True s assms effect_rejected [of slug st s env e] by simp
  qed
qed

lemma effect_location:
  assumes "slug \<noteq> []"
  shows "location (fst (CustomerPortalPage_effect env slug st)) =
           (if truthy (secret_param (location st)) then stripped slug else location st)"
proof (cases "truthy (secret_param (location st))")
  case False
  then show ?thesis by (simp add: effect_without_secret fetchCustomer_location)
next
  case True
  then obtain s where s: "secret_param (location st) = Some s" "s \<noteq> []"
    using truthy_Some by blast
  show ?thesis
  proof (cases "fst (processPaymentRedirect env slug s)")
    case None
    then show ?thesis
      using True s assms effect_resolved [of slug st s env]
      by (simp add: fetchCustomer_location)
  next
    case (Some e)
    then show ?thesis using True s assms effect_rejected [of slug st s env e] by simp
  qed
qed

lemma fetchCustomer_resets:
  "slug \<noteq> [] \<Longrightarrow>
     (fst (fetchCustomer env slug (st\<lparr>location := u, loading := True, error := None\<rparr>)))\<lparr>loading := False\<rparr>
       = fst (fetchCustomer env slug (st\<lparr>location := u\<rparr>))"
  by (simp add: fetchCustomer_def Let_def split: promise.splits customer_response.splits sum.splits)

lemma render_profile:
  "slug \<noteq> [] \<Longrightarrow> fetch_customer env slug = Resolved (IsOk (Resolved d)) \<Longrightarrow>
     render slug (fst (fetchCustomer env slug st)) = PortalView d"
  by (simp add: fetchCustomer_ok render_def)

text \<open>
  C6. When the retrieved intent is not succeeded, or its resolved amount is below 1, the
  handler resolves without an exception after the retrieval, and the page goes on as on
  an ordinary load: no apply-credit call, and the page ends in the state the profile
  fetch alone gives (the profile, when that fetch succeeds).
\<close>

theorem C6_abort_silently:
  assumes "slug \<noteq> []" and "secret_param (location st) = Some s" and "s \<noteq> []"
    and "loadStripe env = Resolved True"
    and "retrievePaymentIntent env s = Resolved (Some p)"
    and "pi_status p \<noteq> ''succeeded'' \<or> resolved_amount p < 1"
  shows "processPaymentRedirect env slug s = (None, [LoadStripe, RetrievePaymentIntent s])
       \<and> CustomerPortalPage_effect env slug st =
           (fst (fetchCustomer env slug (st\<lparr>location := stripped slug\<rparr>)),
            [ReplaceState (stripped slug), LoadStripe, RetrievePaymentIntent s, FetchCustomer slug])
       \<and> apply_credit_calls (snd (CustomerPortalPage_effect env slug st)) = 0
       \<and> (fetch_customer env slug = Resolved (IsOk (Resolved d)) \<longrightarrow>
            render slug (fst (CustomerPortalPage_effect env slug st)) = PortalView d)"
proof -
  have a: "processPaymentRedirect env slug s = (None, [LoadStripe, RetrievePaymentIntent s])"
    using assms(4-6) by (rule redirect_abort)
  have e: "CustomerPortalPage_effect env slug st =
           (fst (fetchCustomer env slug (st\<lparr>location := stripped slug\<rparr>)),
            [ReplaceState (stripped slug), LoadStripe, RetrievePaymentIntent s, FetchCustomer slug])"
    using effect_resolved [OF assms(1-3), of env] a assms(1) by (simp add: fetchCustomer_resets)
  show ?thesis
    using a e assms(1) by (simp add: apply_credit_calls_def render_profile)
qed

theorem C6_abort_silently_witness:
  "loadStripe browser_ok = Resolved True
   \<and> retrievePaymentIntent browser_ok ''pi_C_secret_2'' = Resolved (Some intent_C)
   \<and> pi_status intent_C \<noteq> ''succeeded''
   \<and> processPaymentRedirect browser_ok ''cus_A'' ''pi_C_secret_2''
       = (None, [LoadStripe, RetrievePaymentIntent ''pi_C_secret_2''])
   \<and> snd (CustomerPortalPage_effect browser_ok ''cus_A'' (loaded_at ''cus_A'' (Some ''pi_C_secret_2'')))
       = [ReplaceState (stripped ''cus_A''), LoadStripe, RetrievePaymentIntent ''pi_C_secret_2'',
          FetchCustomer ''cus_A'']
   \<and> render ''cus_A''
        (fst (CustomerPortalPage_effect browser_ok ''cus_A'' (loaded_at ''cus_A'' (Some ''pi_C_secret_2''))))
       = PortalView (profile ''cus_A'')"
  using C6_abort_silently
    [of "''cus_A''" "loaded_at ''cus_A'' (Some ''pi_C_secret_2'')" "''pi_C_secret_2''"
        browser_ok intent_C "profile ''cus_A''"]
  by (simp add: browser_ok_def loaded_at_def initial_page_def intent_C_def fetchCustomer_def
      render_def Let_def)

text \<open>
  C7. When the retrieved intent is succeeded, the handler makes one apply-credit call,
  for the customer it was given and in the intent's currency (\<open>usd\<close> when the intent has
  none): with the intent's \<open>amount_received\<close> when that field is there and at least 1,
  whatever the requested amount is; with the requested \<open>amount\<close> when there is no
  \<open>amount_received\<close> and the requested amount is at least 1.
\<close>

theorem C7_credits_confirmed_amount:
  assumes "loadStripe env = Resolved True"
    and "retrievePaymentIntent env s = Resolved (Some p)"
    and "pi_status p = ''succeeded''"
  shows "(\<forall>r. amount_received p = Some r \<and> 1 \<le> r \<longrightarrow>
            snd (processPaymentRedirect env cid s) =
              [LoadStripe, RetrievePaymentIntent s,
               FetchApplyCredit cid (Fin (of_int r))
                 (case pi_currency p of Some c \<Rightarrow> c | None \<Rightarrow> ''usd'')])
       \<and> (\<forall>a. amount_received p = None \<and> pi_amount p = Some a \<and> 1 \<le> a \<longrightarrow>
            snd (processPaymentRedirect env cid s) =
              [LoadStripe, RetrievePaymentIntent s,
               FetchApplyCredit cid (Fin (of_int a))
                 (case pi_currency p of Some c \<Rightarrow> c | None \<Rightarrow> ''usd'')])"
  using assms
  by (auto simp: processPaymentRedirect_def resolved_amount_def nullish_def Let_def
      split: promise.splits)

theorem C7_credits_confirmed_amount_witness:
  "retrievePaymentIntent browser_more ''pi_P_secret_3'' = Resolved (Some intent_P)
   \<and> amount_received intent_P = Some 180 \<and> pi_amount intent_P = Some 500
   \<and> snd (processPaymentRedirect browser_more ''cus_A'' ''pi_P_secret_3'')
       = [LoadStripe, RetrievePaymentIntent ''pi_P_secret_3'',
          FetchApplyCredit ''cus_A'' (Fin 180) ''eur'']
   \<and> retrievePaymentIntent browser_more ''pi_F_secret_4'' = Resolved (Some intent_F)
   \<and> amount_received intent_F = None \<and> pi_amount intent_F = Some 300
   \<and> snd (processPaymentRedirect browser_more ''cus_A'' ''pi_F_secret_4'')
       = [LoadStripe, RetrievePaymentIntent ''pi_F_secret_4'',
          FetchApplyCredit ''cus_A'' (Fin 300) ''usd'']"
proof -
  have l: "loadStripe browser_more = Resolved True"
    by (simp add: browser_more_def browser_ok_def)
  have p: "retrievePaymentIntent browser_more ''pi_P_secret_3'' = Resolved (Some intent_P)"
    and f: "retrievePaymentIntent browser_more ''pi_F_secret_4'' = Resolved (Some intent_F)"
    by (simp_all add: browser_more_def)
  have ps: "pi_status intent_P = ''succeeded''" "amount_received intent_P = Some 180"
      "pi_amount intent_P = Some 500" "pi_currency intent_P = Some ''eur''"
    by (simp_all add: intent_P_def)
  have fs: "pi_status intent_F = ''succeeded''" "amount_received intent_F = None"
      "pi_amount intent_F = Some 300" "pi_currency intent_F = None"
    by (simp_all add: intent_F_def)
  from C7_credits_confirmed_amount [OF l p ps(1), of "''cus_A''"] ps
  have one: "snd (processPaymentRedirect browser_more ''cus_A'' ''pi_P_secret_3'')
       = [LoadStripe, RetrievePaymentIntent ''pi_P_secret_3'',
          FetchApplyCredit ''cus_A'' (Fin 180) ''eur'']"
    by simp
  from C7_credits_confirmed_amount [OF l f fs(1), of "''cus_A''"] fs
  have two: "snd (processPaymentRedirect browser_more ''cus_A'' ''pi_F_secret_4'')
       = [LoadStripe, RetrievePaymentIntent ''pi_F_secret_4'',
          FetchApplyCredit ''cus_A'' (Fin 300) ''usd'']"
    by simp
  from p f ps(2,3) fs(2,3) one two show ?thesis by simp
qed

lemma redirect_ignores_customer:
  "processPaymentRedirect (with_intent_customer x env) cid s = processPaymentRedirect env cid s"
  by (simp add: processPaymentRedirect_def with_intent_customer_def resolved_amount_def Let_def
      split: promise.splits option.splits)

lemma fetchCustomer_ignores_customer:
  "fetchCustomer (with_intent_customer x env) slug st = fetchCustomer env slug st"
  by (simp add: fetchCustomer_def with_intent_customer_def)

text \<open>
  C10. Every apply-credit call of a page load names the customer of the page's URL, and
  the whole run is the same whatever customer the retrieved intent was created for: the
  handler does not read that field. So the secret of a succeeded intent, presented on
  another customer's page, credits the customer of the page.
\<close>

theorem C10_credits_customer_of_url:
  "(\<forall>c a cur. FetchApplyCredit c a cur \<in> set (snd (CustomerPortalPage_effect env slug st))
       \<longrightarrow> c = slug)
   \<and> processPaymentRedirect (with_intent_customer x env) slug s = processPaymentRedirect env slug s
   \<and> CustomerPortalPage_effect (with_intent_customer x env) slug st
       = CustomerPortalPage_effect env slug st"
proof (intro conjI allI impI)
  fix c a cur
  assume m: "FetchApplyCredit c a cur \<in> set (snd (CustomerPortalPage_effect env slug st))"
  show "c = slug"
  proof (cases "slug = []")
    case True
    with m show ?thesis by (simp add: CustomerPortalPage_effect_def)
  next
    case False
    from m show ?thesis
      unfolding effect_events [OF False]
      by (auto split: if_splits dest: redirect_credits_cid)
  qed
next
  show "processPaymentRedirect (with_intent_customer x env) slug s = processPaymentRedirect env slug s"
    by (rule redirect_ignores_customer)
next
  show "CustomerPortalPage_effect (with_intent_customer x env) slug st
       = CustomerPortalPage_effect env slug st"
    by (simp add: CustomerPortalPage_effect_def redirect_ignores_customer
        fetchCustomer_ignores_customer Let_def split: prod.splits option.splits)
qed

theorem C10_credits_customer_of_url_witness:
  "pi_customer intent_A = Some ''cus_A''
   \<and> FetchApplyCredit ''cus_B'' (Fin 200) ''usd''
       \<in> set (snd (CustomerPortalPage_effect browser_ok ''cus_B'' (loaded_at ''cus_B'' (Some ''pi_A_secret_1''))))
   \<and> CustomerPortalPage_effect (with_intent_customer (Some ''cus_B'') browser_ok) ''cus_B''
         (loaded_at ''cus_B'' (Some ''pi_A_secret_1''))
       = CustomerPortalPage_effect browser_ok ''cus_B'' (loaded_at ''cus_B'' (Some ''pi_A_secret_1''))"
proof -
  have m: "FetchApplyCredit ''cus_B'' (Fin 200) ''usd''
       \<in> set (snd (CustomerPortalPage_effect browser_ok ''cus_B'' (loaded_at ''cus_B'' (Some ''pi_A_secret_1''))))"
    by (simp add: CustomerPortalPage_effect_def processPaymentRedirect_def fetchCustomer_def
        browser_ok_def loaded_at_def initial_page_def intent_A_def resolved_amount_def nullish_def
        truthy_def Let_def)
  from C10_credits_customer_of_url
    [of browser_ok "''cus_B''" "loaded_at ''cus_B'' (Some ''pi_A_secret_1'')" "Some ''cus_B''" "''pi_A_secret_1''"] m
  show ?thesis by (simp add: intent_A_def)
qed

text \<open>
  C4. On a page load the address never keeps a confirmation secret: when the parameter
  carries one, the first thing the page does, before Stripe.js is loaded and before any
  request, is to replace the address by \<open>/customers/<slug>\<close>, once; otherwise the page
  only fetches the profile.
\<close>

theorem C4_secret_stripped_first:
  assumes "slug \<noteq> []"
  shows "\<not> truthy (secret_param (location (fst (CustomerPortalPage_effect env slug st))))
       \<and> (truthy (secret_param (location st)) \<longrightarrow>
            location (fst (CustomerPortalPage_effect env slug st)) = stripped slug
          \<and> (\<exists>rest. snd (CustomerPortalPage_effect env slug st) = ReplaceState (stripped slug) # rest
                \<and> (\<forall>u. ReplaceState u \<notin> set rest)))
       \<and> (\<not> truthy (secret_param (location st)) \<longrightarrow>
            snd (CustomerPortalPage_effect env slug st) = [FetchCustomer slug])"
  using assms
  by (auto simp: effect_location effect_events stripped_def truthy_def redirect_no_replaceState)

theorem C4_secret_stripped_first_witness:
  "truthy (secret_param (location (loaded_at ''cus_A'' (Some ''pi_A_secret_1''))))
   \<and> location (fst (CustomerPortalPage_effect browser_ok ''cus_A'' (loaded_at ''cus_A'' (Some ''pi_A_secret_1''))))
       = \<lparr>pathname = ''/customers/cus_A'', secret_param = None\<rparr>
   \<and> hd (snd (CustomerPortalPage_effect browser_ok ''cus_A'' (loaded_at ''cus_A'' (Some ''pi_A_secret_1''))))
       = ReplaceState \<lparr>pathname = ''/customers/cus_A'', secret_param = None\<rparr>"
  using C4_secret_stripped_first
    [of "''cus_A''" browser_ok "loaded_at ''cus_A'' (Some ''pi_A_secret_1'')"]
  by (auto simp: loaded_at_def initial_page_def truthy_def stripped_def)

text \<open>
  C3 (as amended). After the handler resolves (among others when the intent is not
  succeeded, when the amount is below 1, and when the credit was applied) the profile is
  fetched again and, when that fetch succeeds, displayed. After the handler rejects (as
  it does when the apply-credit call is answered with an error) the profile is not
  fetched: the page shows the error message and no profile.
\<close>

theorem C3_refetch_after_handler:
  assumes "slug \<noteq> []" and "secret_param (location st) = Some s" and "s \<noteq> []"
  shows "(fst (processPaymentRedirect env slug s) = None \<longrightarrow>
            CustomerPortalPage_effect env slug st =
              (fst (fetchCustomer env slug (st\<lparr>location := stripped slug\<rparr>)),
               ReplaceState (stripped slug) # snd (processPaymentRedirect env slug s) @ [FetchCustomer slug])
          \<and> (\<forall>d. fetch_customer env slug = Resolved (IsOk (Resolved d)) \<longrightarrow>
                render slug (fst (CustomerPortalPage_effect env slug st)) = PortalView d))
       \<and> (\<forall>e. fst (processPaymentRedirect env slug s) = Some e \<longrightarrow>
            FetchCustomer slug \<notin> set (snd (CustomerPortalPage_effect env slug st))
          \<and> render slug (fst (CustomerPortalPage_effect env slug st))
              = ErrorView (message_or e ''Failed to update balance''))
       \<and> (loadStripe env = Resolved True \<and> retrievePaymentIntent env s = Resolved (Some p) \<longrightarrow>
            (pi_status p \<noteq> ''succeeded'' \<or> resolved_amount p < 1 \<longrightarrow>
               fst (processPaymentRedirect env slug s) = None)
          \<and> (pi_status p = ''succeeded'' \<and> 1 \<le> resolved_amount p \<longrightarrow>
               (\<forall>res. fetch_apply_credit env slug (Fin (of_int (resolved_amount p)))
                        (nullish (pi_currency p) ''usd'') = Resolved res \<longrightarrow>
                  fst (processPaymentRedirect env slug s)
                    = (if res_ok res then None else Some (Error ''Failed to apply credit'')))))"
proof (intro conjI allI impI)
  assume r: "fst (processPaymentRedirect env slug s) = None"
  show e: "CustomerPortalPage_effect env slug st =
              (fst (fetchCustomer env slug (st\<lparr>location := stripped slug\<rparr>)),
               ReplaceState (stripped slug) # snd (processPaymentRedirect env slug s) @ [FetchCustomer slug])"
    using effect_resolved [OF assms r] assms(1) by (simp add: fetchCustomer_resets)
  fix d
  assume "fetch_customer env slug = Resolved (IsOk (Resolved d))"
  then show "render slug (fst (CustomerPortalPage_effect env slug st)) = PortalView d"
    using e assms(1) by (simp add: render_profile)
next
  fix e
  assume r: "fst (processPaymentRedirect env slug s) = Some e"
  show "FetchCustomer slug \<notin> set (snd (CustomerPortalPage_effect env slug st))"
    using effect_rejected [OF assms r] by (simp add: redirect_no_fetchCustomer)
  show "render slug (fst (CustomerPortalPage_effect env slug st))
          = ErrorView (message_or e ''Failed to update balance'')"
    using effect_rejected [OF assms r] assms(1) by (simp add: render_def nullish_def)
next
  assume "loadStripe env = Resolved True \<and> retrievePaymentIntent env s = Resolved (Some p)"
    and "pi_status p \<noteq> ''succeeded'' \<or> resolved_amount p < 1"
  then show "fst (processPaymentRedirect env slug s) = None"
    using redirect_abort [of env s p slug] by simp
next
  fix res
  assume "loadStripe env = Resolved True \<and> retrievePaymentIntent env s = Resolved (Some p)"
    and "pi_status p = ''succeeded'' \<and> 1 \<le> resolved_amount p"
    and "fetch_apply_credit env slug (Fin (of_int (resolved_amount p)))
           (nullish (pi_currency p) ''usd'') = Resolved res"
  then show "fst (processPaymentRedirect env slug s)
               = (if res_ok res then None else Some (Error ''Failed to apply credit''))"
    using redirect_credit [of env s p slug] by simp
qed

theorem C3_refetch_after_handler_witness:
  "fst (processPaymentRedirect browser_ok ''cus_A'' ''pi_C_secret_2'') = None
   \<and> snd (CustomerPortalPage_effect browser_ok ''cus_A'' (loaded_at ''cus_A'' (Some ''pi_C_secret_2'')))
       = [ReplaceState (stripped ''cus_A''), LoadStripe, RetrievePaymentIntent ''pi_C_secret_2'',
          FetchCustomer ''cus_A'']
   \<and> fetch_customer browser_ok ''cus_A'' = Resolved (IsOk (Resolved (profile ''cus_A'')))
   \<and> render ''cus_A''
        (fst (CustomerPortalPage_effect browser_ok ''cus_A'' (loaded_at ''cus_A'' (Some ''pi_C_secret_2''))))
       = PortalView (profile ''cus_A'')
   \<and> fst (processPaymentRedirect browser_credit_fails ''cus_A'' ''pi_A_secret_1'')
       = Some (Error ''Failed to apply credit'')
   \<and> FetchCustomer ''cus_A''
       \<notin> set (snd (CustomerPortalPage_effect browser_credit_fails ''cus_A''
                      (loaded_at ''cus_A'' (Some ''pi_A_secret_1''))))"
proof -
  have r: "processPaymentRedirect browser_ok ''cus_A'' ''pi_C_secret_2''
             = (None, [LoadStripe, RetrievePaymentIntent ''pi_C_secret_2''])"
    by (simp add: processPaymentRedirect_def browser_ok_def intent_C_def)
  have f: "fetch_customer browser_ok ''cus_A'' = Resolved (IsOk (Resolved (profile ''cus_A'')))"
    by (simp add: browser_ok_def)
  have r': "fst (processPaymentRedirect browser_credit_fails ''cus_A'' ''pi_A_secret_1'')
             = Some (Error ''Failed to apply credit'')"
    by (simp add: processPaymentRedirect_def browser_credit_fails_def browser_ok_def intent_A_def
        resolved_amount_def nullish_def Let_def)
  from C3_refetch_after_handler
    [of "''cus_A''" "loaded_at ''cus_A'' (Some ''pi_C_secret_2'')" "''pi_C_secret_2''" browser_ok intent_C]
    r f
  have one: "snd (CustomerPortalPage_effect browser_ok ''cus_A'' (loaded_at ''cus_A'' (Some ''pi_C_secret_2'')))
       = [ReplaceState (stripped ''cus_A''), LoadStripe, RetrievePaymentIntent ''pi_C_secret_2'',
          FetchCustomer ''cus_A'']
   \<and> render ''cus_A''
        (fst (CustomerPortalPage_effect browser_ok ''cus_A'' (loaded_at ''cus_A'' (Some ''pi_C_secret_2''))))
       = PortalView (profile ''cus_A'')"
    by (simp add: loaded_at_def initial_page_def render_profile)
  from C3_refetch_after_handler
    [of "''cus_A''" "loaded_at ''cus_A'' (Some ''pi_A_secret_1'')" "''pi_A_secret_1''"
        browser_credit_fails intent_A]
    r'
  have two: "FetchCustomer ''cus_A''
       \<notin> set (snd (CustomerPortalPage_effect browser_credit_fails ''cus_A''
                      (loaded_at ''cus_A'' (Some ''pi_A_secret_1''))))"
    by (simp add: loaded_at_def initial_page_def)
  from r f r' one two show ?thesis by simp
qed

text \<open>
  The claim as stated fails when the apply-credit call is answered with an error: the
  page makes no profile request and shows the error.
\<close>

theorem C3_counterexample:
  "CustomerPortalPage_effect browser_credit_fails ''cus_A'' (loaded_at ''cus_A'' (Some ''pi_A_secret_1''))
     = (\<lparr>customer = None, loading = False, error = Some ''Failed to apply credit'',
         location = \<lparr>pathname = ''/customers/cus_A'', secret_param = None\<rparr>\<rparr>,
        [ReplaceState \<lparr>pathname = ''/customers/cus_A'', secret_param = None\<rparr>, LoadStripe,
         RetrievePaymentIntent ''pi_A_secret_1'', FetchApplyCredit ''cus_A'' (Fin 200) ''usd''])
   \<and> render ''cus_A''
        (fst (CustomerPortalPage_effect browser_credit_fails ''cus_A''
               (loaded_at ''cus_A'' (Some ''pi_A_secret_1''))))
       = ErrorView ''Failed to apply credit''"
  by (simp add: CustomerPortalPage_effect_def processPaymentRedirect_def browser_credit_fails_def
      browser_ok_def loaded_at_def initial_page_def intent_A_def resolved_amount_def nullish_def
      truthy_def stripped_def message_or_def render_def Let_def)

section \<open>Properties of the numbers\<close>

lemma find_exponent_eq:
  "2 powi e \<le> a \<Longrightarrow> a < 2 powi (e + 1) \<Longrightarrow> - 1022 \<le> e \<Longrightarrow> e \<le> int n - 1022 \<Longrightarrow>
     find_exponent n a = e"
proof (induction n)
  case 0
  then show ?case by simp
next
  case (Suc n)
  show ?case
  proof (cases "2 powi (int (Suc n) - 1022) \<le> a")
    case True
    have "\<not> e + 1 \<le> int (Suc n) - 1022"
    proof
      assume "e + 1 \<le> int (Suc n) - 1022"
      then have "(2::rat) powi (e + 1) \<le> 2 powi (int (Suc n) - 1022)"
        by (intro power_int_increasing) simp_all
      with True Suc.prems(2) show False by linarith
    qed
    with Suc.prems(4) have "int (Suc n) - 1022 = e" by linarith
    with True show ?thesis by simp
  next
    case False
    with Suc.prems(1) have "int (Suc n) - 1022 \<noteq> e" by auto
    with Suc.prems(4) have "e \<le> int n - 1022" by simp
    with Suc.IH Suc.prems(1-3) False show ?thesis by simp
  qed
qed

lemma round_half_even_near:
  "of_int m - 1 / 2 < x \<Longrightarrow> x < of_int m + 1 / 2 \<Longrightarrow> round_half_even x = m"
proof -
  assume a: "of_int m - 1 / 2 < x" and b: "x < of_int m + 1 / 2"
  have "\<lfloor>x\<rfloor> = m \<or> \<lfloor>x\<rfloor> = m - 1"
  proof -
    have "\<lfloor>x\<rfloor> \<le> m" using b by (simp add: floor_le_iff) 
    moreover have "m - 1 \<le> \<lfloor>x\<rfloor>" using a by (simp add: le_floor_iff)
    ultimately show ?thesis by linarith
  qed
  then show ?thesis
  proof
    assume f: "\<lfloor>x\<rfloor> = m"
    then have "x - of_int m < 1 / 2" using b by simp
    with f show ?thesis by (simp add: round_half_even_def)
  next
    assume f: "\<lfloor>x\<rfloor> = m - 1"
    then have "1 / 2 < x - of_int (m - 1)" using a by simp
    with f show ?thesis by (simp add: round_half_even_def Let_def)
  qed
qed

lemma to_double_normal:
  assumes "0 < r" and "2 powi e \<le> r" and "r < 2 powi (e + 1)" and "- 1022 \<le> e" and "e \<le> 1023"
    and "of_int m - 1 / 2 < r / 2 powi (e - 52)" and "r / 2 powi (e - 52) < of_int m + 1 / 2"
    and "of_int m * 2 powi (e - 52) < (2::rat) ^ 1024"
  shows "to_double r = Fin (of_int m * 2 powi (e - 52))"
proof -
  have e: "find_exponent 2045 r = e"
    using assms(2-5) by (intro find_exponent_eq) simp_all
  have m: "round_half_even (r / 2 powi (e - 52)) = m"
    using assms(6,7) by (rule round_half_even_near)
  have a: "\<bar>r\<bar> = r" and n: "\<not> r < 0"
    using assms(1) by simp_all
  show ?thesis
    unfolding to_double_def Let_def a e m using assms(8) n by (simp del: power_numeral)
qed

lemma parse_030: "to_double (3 / 10) = Fin (5404319552844595 / 2 ^ 54)"
  using to_double_normal [of "3 / 10" "- 2" 5404319552844595] by simp














section \<open>Properties of the payment form\<close>







lemma confirm_events:
  "snd (handleConfirmPayment env pr st) =
     (if \<not> stripeRef st \<or> \<not> elementsRef st \<or> \<not> truthy (clientSecret st) then []
      else
        (let s = the (clientSecret st);
             u = \<lparr>pathname = ''/customers/'' @ prop_customerId pr, secret_param = Some s\<rparr>
         in if elements_submit env \<noteq> Resolved SdkOk then [ElementsSubmit]
            else if confirmPayment env s u \<noteq> Settles (Resolved SdkOk) then
              [ElementsSubmit, ConfirmPayment s u]
            else
              [ElementsSubmit, ConfirmPayment s u,
               FetchApplyCredit (prop_customerId pr) (to_cents (amountDollars st))
                 (cd_currency (prop_customer pr))] @
              (case fetch_apply_credit env (prop_customerId pr) (to_cents (amountDollars st))
                      (cd_currency (prop_customer pr)) of
                 Resolved res \<Rightarrow> if res_ok res then [OnBalanceUpdated] else []
               | Rejected e \<Rightarrow> [])))"
  by (simp add: handleConfirmPayment_def Let_def
      split: promise.splits sdk_result.splits confirmation.splits)




lemma apply_credit_calls_simps:
  "apply_credit_calls [] = 0"
  "apply_credit_calls (FetchApplyCredit c a cur # evs) = Suc (apply_credit_calls evs)"
  "apply_credit_calls (ReplaceState u # evs) = apply_credit_calls evs"
  "apply_credit_calls (LoadStripe # evs) = apply_credit_calls evs"
  "apply_credit_calls (RetrievePaymentIntent s # evs) = apply_credit_calls evs"
  "apply_credit_calls (FetchCustomer c # evs) = apply_credit_calls evs"
  "apply_credit_calls (ElementsSubmit # evs) = apply_credit_calls evs"
  "apply_credit_calls (ConfirmPayment s u # evs) = apply_credit_calls evs"
  "apply_credit_calls (OnBalanceUpdated # evs) = apply_credit_calls evs"
  "apply_credit_calls (evs @ evs') = apply_credit_calls evs + apply_credit_calls evs'"
  by (simp_all add: apply_credit_calls_def)

lemma apply_credit_calls_replicate:
  "apply_credit_calls (concat (replicate n evs)) = n * apply_credit_calls evs"
  by (induction n) (simp_all add: apply_credit_calls_simps)

lemma redirect_calls:
  "apply_credit_calls (snd (processPaymentRedirect env cid s)) =
     (if loadStripe env = Resolved True
         \<and> (case retrievePaymentIntent env s of
               Resolved (Some p) \<Rightarrow>
                 pi_status p = ''succeeded''
                 \<and> 1 \<le> (case amount_received p of
                            Some r \<Rightarrow> r
                          | None \<Rightarrow> (case pi_amount p of Some a \<Rightarrow> a | None \<Rightarrow> 0))
             | _ \<Rightarrow> False)
      then 1 else 0)"
  by (simp add: processPaymentRedirect_def resolved_amount_def nullish_def Let_def
      apply_credit_calls_simps split: promise.splits option.splits)

lemma confirm_calls:
  "apply_credit_calls (snd (handleConfirmPayment env pr form)) =
     (if stripeRef form \<and> elementsRef form \<and> truthy (clientSecret form)
         \<and> elements_submit env = Resolved SdkOk
         \<and> confirmPayment env (the (clientSecret form))
              \<lparr>pathname = ''/customers/'' @ prop_customerId pr,
               secret_param = Some (the (clientSecret form))\<rparr>
            = Settles (Resolved SdkOk)
      then 1 else 0)"
  unfolding confirm_events
  by (simp add: Let_def apply_credit_calls_simps split: promise.splits)

text \<open>
  C1 (as amended). A page load runs the redirect reconciliation when the query parameter
  carries a secret, and only fetches the profile otherwise. It calls apply-credit once
  when Stripe.js loads and the retrieved intent is succeeded with a resolved amount of at
  least 1, and not at all otherwise. A submission of the form calls apply-credit once
  when neither the submission of the details nor the confirmation reports an error, and
  not at all otherwise: a confirmation that sends the browser to the return URL leaves
  the credit to the load of that URL. Nothing joins the loads: \<open>n\<close> loads of one address
  make \<open>n\<close> times the calls of one load.
\<close>

theorem C1_apply_credit_at_most_once:
  assumes "slug \<noteq> []"
  shows "snd (CustomerPortalPage_effect env slug st) =
           (if truthy (secret_param (location st)) then
              ReplaceState (stripped slug) #
                snd (processPaymentRedirect env slug (the (secret_param (location st)))) @
                (if fst (processPaymentRedirect env slug (the (secret_param (location st)))) = None
                 then [FetchCustomer slug] else [])
            else [FetchCustomer slug])
       \<and> apply_credit_calls (snd (CustomerPortalPage_effect env slug st)) =
           (if truthy (secret_param (location st)) \<and> loadStripe env = Resolved True
               \<and> (case retrievePaymentIntent env (the (secret_param (location st))) of
                     Resolved (Some p) \<Rightarrow>
                       pi_status p = ''succeeded''
                       \<and> 1 \<le> (case amount_received p of
                                  Some r \<Rightarrow> r
                                | None \<Rightarrow> (case pi_amount p of Some a \<Rightarrow> a | None \<Rightarrow> 0))
                   | _ \<Rightarrow> False)
            then 1 else 0)
       \<and> apply_credit_calls (snd (handleConfirmPayment env pr form)) =
           (if stripeRef form \<and> elementsRef form \<and> truthy (clientSecret form)
               \<and> elements_submit env = Resolved SdkOk
               \<and> confirmPayment env (the (clientSecret form))
                    \<lparr>pathname = ''/customers/'' @ prop_customerId pr,
                     secret_param = Some (the (clientSecret form))\<rparr>
                  = Settles (Resolved SdkOk)
            then 1 else 0)
       \<and> (\<forall>s. stripeRef form \<and> elementsRef form \<and> clientSecret form = Some s \<and> s \<noteq> []
              \<and> elements_submit env = Resolved SdkOk
              \<and> confirmPayment env s
                   \<lparr>pathname = ''/customers/'' @ prop_customerId pr, secret_param = Some s\<rparr>
                 = Leaves_page \<longrightarrow>
            snd (handleConfirmPayment env pr form) =
              [ElementsSubmit,
               ConfirmPayment s
                 \<lparr>pathname = ''/customers/'' @ prop_customerId pr, secret_param = Some s\<rparr>])
       \<and> apply_credit_calls (reloads n env slug u) =
           n * apply_credit_calls (snd (CustomerPortalPage_effect env slug (initial_page u)))"
proof (intro conjI allI impI)
  show "snd (CustomerPortalPage_effect env slug st) =
           (if truthy (secret_param (location st)) then
              ReplaceState (stripped slug) #
                snd (processPaymentRedirect env slug (the (secret_param (location st)))) @
                (if fst (processPaymentRedirect env slug (the (secret_param (location st)))) = None
                 then [FetchCustomer slug] else [])
            else [FetchCustomer slug])"
    by (rule effect_events [OF assms])
next
  show "apply_credit_calls (snd (CustomerPortalPage_effect env slug st)) =
           (if truthy (secret_param (location st)) \<and> loadStripe env = Resolved True
               \<and> (case retrievePaymentIntent env (the (secret_param (location st))) of
                     Resolved (Some p) \<Rightarrow>
                       pi_status p = ''succeeded''
                       \<and> 1 \<le> (case amount_received p of
                                  Some r \<Rightarrow> r
                                | None \<Rightarrow> (case pi_amount p of Some a \<Rightarrow> a | None \<Rightarrow> 0))
                   | _ \<Rightarrow> False)
            then 1 else 0)"
    unfolding effect_events [OF assms]
    by (simp add: apply_credit_calls_simps redirect_calls)
next
  show "apply_credit_calls (snd (handleConfirmPayment env pr form)) =
           (if stripeRef form \<and> elementsRef form \<and> truthy (clientSecret form)
               \<and> elements_submit env = Resolved SdkOk
               \<and> confirmPayment env (the (clientSecret form))
                    \<lparr>pathname = ''/customers/'' @ prop_customerId pr,
                     secret_param = Some (the (clientSecret form))\<rparr>
                  = Settles (Resolved SdkOk)
            then 1 else 0)"
    by (rule confirm_calls)
next
  fix s
  assume "stripeRef form \<and> elementsRef form \<and> clientSecret form = Some s \<and> s \<noteq> []
              \<and> elements_submit env = Resolved SdkOk
              \<and> confirmPayment env s
                   \<lparr>pathname = ''/customers/'' @ prop_customerId pr, secret_param = Some s\<rparr>
                 = Leaves_page"
  then show "snd (handleConfirmPayment env pr form) =
              [ElementsSubmit,
               ConfirmPayment s
                 \<lparr>pathname = ''/customers/'' @ prop_customerId pr, secret_param = Some s\<rparr>]"
    unfolding confirm_events by (simp add: truthy_def Let_def)
next
  show "apply_credit_calls (reloads n env slug u) =
           n * apply_credit_calls (snd (CustomerPortalPage_effect env slug (initial_page u)))"
    by (simp add: reloads_def apply_credit_calls_replicate)
qed

theorem C1_apply_credit_at_most_once_witness:
  "apply_credit_calls
     (snd (CustomerPortalPage_effect browser_ok ''cus_A'' (loaded_at ''cus_A'' (Some ''pi_A_secret_1''))))
     = 1
   \<and> snd (CustomerPortalPage_effect browser_ok ''cus_A'' (loaded_at ''cus_A'' None))
       = [FetchCustomer ''cus_A'']
   \<and> apply_credit_calls
        (snd (handleConfirmPayment browser_ok (props_of ''cus_A'')
               (form_with (code_units ''2.00'') (Some ''pi_A_secret_1''))))
       = 1
   \<and> confirmPayment browser_redirects ''pi_A_secret_1''
        \<lparr>pathname = ''/customers/cus_A'', secret_param = Some ''pi_A_secret_1''\<rparr> = Leaves_page
   \<and> snd (handleConfirmPayment browser_redirects (props_of ''cus_A'')
             (form_with (code_units ''2.00'') (Some ''pi_A_secret_1'')))
       = [ElementsSubmit,
          ConfirmPayment ''pi_A_secret_1''
            \<lparr>pathname = ''/customers/cus_A'', secret_param = Some ''pi_A_secret_1''\<rparr>]
   \<and> apply_credit_calls
        (snd (handleConfirmPayment browser_redirects (props_of ''cus_A'')
               (form_with (code_units ''2.00'') (Some ''pi_A_secret_1''))))
       = 0"
proof -
  have n: "''cus_A'' \<noteq> []" by simp
  note t = C1_apply_credit_at_most_once [OF n]
  have env: "loadStripe browser_ok = Resolved True"
      "retrievePaymentIntent browser_ok ''pi_A_secret_1'' = Resolved (Some intent_A)"
      "elements_submit browser_ok = Resolved SdkOk"
      "\<And>s u. confirmPayment browser_ok s u = Settles (Resolved SdkOk)"
      "elements_submit browser_redirects = Resolved SdkOk"
      "\<And>s u. confirmPayment browser_redirects s u = Leaves_page"
    by (simp_all add: browser_ok_def browser_redirects_def)
  have p: "pi_status intent_A = ''succeeded''" "amount_received intent_A = Some 200"
    by (simp_all add: intent_A_def)
  have q: "secret_param (location (loaded_at ''cus_A'' (Some ''pi_A_secret_1''))) = Some ''pi_A_secret_1''"
      "secret_param (location (loaded_at ''cus_A'' None)) = None"
    by (simp_all add: loaded_at_def initial_page_def)
  have f: "stripeRef (form_with (code_units ''2.00'') (Some ''pi_A_secret_1''))"
      "elementsRef (form_with (code_units ''2.00'') (Some ''pi_A_secret_1''))"
      "clientSecret (form_with (code_units ''2.00'') (Some ''pi_A_secret_1'')) = Some ''pi_A_secret_1''"
      "prop_customerId (props_of ''cus_A'') = ''cus_A''"
    by (simp_all add: form_with_def props_of_def)
  have one: "apply_credit_calls
     (snd (CustomerPortalPage_effect browser_ok ''cus_A'' (loaded_at ''cus_A'' (Some ''pi_A_secret_1''))))
     = 1"
    using t [where st = "loaded_at ''cus_A'' (Some ''pi_A_secret_1'')" and env = browser_ok,
        THEN conjunct2, THEN conjunct1]
    by (simp add: q env p truthy_def)
  have two: "snd (CustomerPortalPage_effect browser_ok ''cus_A'' (loaded_at ''cus_A'' None))
       = [FetchCustomer ''cus_A'']"
    using t [where st = "loaded_at ''cus_A'' None" and env = browser_ok, THEN conjunct1]
    by (simp add: q truthy_def)
  have three: "apply_credit_calls
        (snd (handleConfirmPayment browser_ok (props_of ''cus_A'')
               (form_with (code_units ''2.00'') (Some ''pi_A_secret_1''))))
       = 1"
    using t [where env = browser_ok and pr = "props_of ''cus_A''"
        and form = "form_with (code_units ''2.00'') (Some ''pi_A_secret_1'')",
        THEN conjunct2, THEN conjunct2, THEN conjunct1]
    by (simp add: f env truthy_def)
  have l: "confirmPayment browser_redirects ''pi_A_secret_1''
        \<lparr>pathname = ''/customers/cus_A'', secret_param = Some ''pi_A_secret_1''\<rparr> = Leaves_page"
    by (rule env)
  have four: "snd (handleConfirmPayment browser_redirects (props_of ''cus_A'')
             (form_with (code_units ''2.00'') (Some ''pi_A_secret_1'')))
       = [ElementsSubmit,
          ConfirmPayment ''pi_A_secret_1''
            \<lparr>pathname = ''/customers/cus_A'', secret_param = Some ''pi_A_secret_1''\<rparr>]"
    using t [where env = browser_redirects and pr = "props_of ''cus_A''"
        and form = "form_with (code_units ''2.00'') (Some ''pi_A_secret_1'')",
        THEN conjunct2, THEN conjunct2, THEN conjunct2, THEN conjunct1]
    by (simp add: f env)
  have five: "apply_credit_calls
        (snd (handleConfirmPayment browser_redirects (props_of ''cus_A'')
               (form_with (code_units ''2.00'') (Some ''pi_A_secret_1''))))
       = 0"
    unfolding four by (simp add: apply_credit_calls_simps)
  from one two three l four five show ?thesis by simp
qed

text \<open>
  The claim as stated fails in both directions for one succeeded intent. The return URL
  loaded a second time applies the credit a second time. The return URL loaded while
  \<open>loadStripe\<close> resolves to null, or for an intent of which nothing was received, applies
  no credit.
\<close>

theorem C1_counterexample:
  "retrievePaymentIntent browser_ok ''pi_A_secret_1'' = Resolved (Some intent_A)
   \<and> pi_status intent_A = ''succeeded''
   \<and> apply_credit_calls
        (reloads 2 browser_ok ''cus_A''
           \<lparr>pathname = ''/customers/cus_A'', secret_param = Some ''pi_A_secret_1''\<rparr>)
       = 2
   \<and> apply_credit_calls
        (snd (CustomerPortalPage_effect browser_no_stripe ''cus_A''
               (loaded_at ''cus_A'' (Some ''pi_A_secret_1''))))
       = 0
   \<and> pi_status intent_Z = ''succeeded''
   \<and> apply_credit_calls
        (snd (CustomerPortalPage_effect browser_more ''cus_A''
               (loaded_at ''cus_A'' (Some ''pi_Z_secret_5''))))
       = 0"
proof -
  have n: "''cus_A'' \<noteq> []" by simp
  have a: "apply_credit_calls
        (snd (CustomerPortalPage_effect browser_ok ''cus_A''
               (initial_page \<lparr>pathname = ''/customers/cus_A'', secret_param = Some ''pi_A_secret_1''\<rparr>)))
       = 1"
    unfolding effect_events [OF n]
    by (simp add: apply_credit_calls_simps redirect_calls initial_page_def truthy_def
        browser_ok_def intent_A_def)
  have b: "apply_credit_calls
        (snd (CustomerPortalPage_effect browser_no_stripe ''cus_A''
               (loaded_at ''cus_A'' (Some ''pi_A_secret_1''))))
       = 0"
    unfolding effect_events [OF n]
    by (simp add: apply_credit_calls_simps redirect_calls loaded_at_def initial_page_def truthy_def
        browser_no_stripe_def)
  have c: "apply_credit_calls
        (snd (CustomerPortalPage_effect browser_more ''cus_A''
               (loaded_at ''cus_A'' (Some ''pi_Z_secret_5''))))
       = 0"
    unfolding effect_events [OF n]
    by (simp add: apply_credit_calls_simps redirect_calls loaded_at_def initial_page_def truthy_def
        browser_more_def browser_ok_def intent_Z_def)
  have d: "apply_credit_calls
        (reloads 2 browser_ok ''cus_A''
           \<lparr>pathname = ''/customers/cus_A'', secret_param = Some ''pi_A_secret_1''\<rparr>)
       = 2"
    using a by (simp add: reloads_def apply_credit_calls_replicate)
  have r: "retrievePaymentIntent browser_ok ''pi_A_secret_1'' = Resolved (Some intent_A)"
    by (simp add: browser_ok_def)
  have s: "pi_status intent_A = ''succeeded''" "pi_status intent_Z = ''succeeded''"
    by (simp_all add: intent_A_def intent_Z_def)
  from r s d b c show ?thesis by simp
qed

end
